theory Spec2Isabelle
  imports Complex_Main
begin

section \<open>Data model\<close>

text \<open>
  The repository holds two modules, \<^verbatim>\<open>talk_codebase/llm.py\<close> and
  \<^verbatim>\<open>talk_codebase/LLM.py\<close>, that define the same classes. Functions of the first
  carry the suffix \<open>_llm_py\<close>, functions of the second the suffix \<open>_LLM_py\<close>.

  A langchain \<^verbatim>\<open>Document\<close> has a \<^verbatim>\<open>page_content\<close> and a \<^verbatim>\<open>metadata\<close> dictionary; the
  code reads one key of it, \<^verbatim>\<open>metadata["source"]\<close>, which the Loader sets on every document.
  Strings are byte lists (UTF-8).
\<close>

record doc_metadata =
  source :: string

record document =
  page_content :: string
  metadata :: doc_metadata

text \<open>
  The configuration dictionary, with the keys the code reads through \<^verbatim>\<open>config.get\<close>, each
  at the type the code converts it to (\<^verbatim>\<open>int(...)\<close>, \<^verbatim>\<open>float(...)\<close>).
\<close>

record config =
  get_model_type :: string
  get_chunk_size :: int
  get_chunk_overlap :: int
  get_k :: int
  get_model_name :: string
  get_model_path :: string
  get_api_key :: string
  get_max_tokens :: int
  get_temperature :: real

datatype embeddings = HuggingFaceEmbeddings string | OpenAIEmbeddings string

datatype llm_model =
    GPT4All string int
  | ChatOpenAI string string int "real option"

datatype message = SystemMessage string | HumanMessage string

text \<open>
  What ends a call early: \<^verbatim>\<open>exit(0)\<close> raises \<^verbatim>\<open>SystemExit\<close>, the abstract methods of
  \<^verbatim>\<open>BaseLLM\<close> raise \<^verbatim>\<open>NotImplementedError\<close>; the code raises nothing else on purpose and
  defines no exception class. \<^verbatim>\<open>_update_vector_store\<close> of \<^verbatim>\<open>LLM.py\<close> makes three calls
  that Python rejects: a library function called without a required argument
  (\<^verbatim>\<open>TypeError\<close>), a name that is bound nowhere (\<^verbatim>\<open>NameError\<close>) and a method the library's
  class does not have (\<^verbatim>\<open>AttributeError\<close>); each carries the name of what was called.
  The similarity search of the vector store library may raise an exception of its own
  (\<open>SearchError\<close>, with the exception's name): what it does with an invalid \<open>k\<close> is the
  library's choice, so its result is a sum. The other collaborators (Loader, splitter,
  embedding provider, language model, file system) are taken to return.
\<close>

datatype error =
    SystemExit int
  | NotImplementedError string
  | TypeError string
  | NameError string
  | AttributeError string
  | SearchError string

text \<open>
  The calls to collaborators and the output the code produces, in the order they happen.
\<close>

datatype event =
    GetLocalVectorStore string
  | LoadFiles string
  | SplitDocuments int int "document list"
  | CalculateCost "document list" string
  | Embed "document list"
  | SaveLocal string
  | Search string int
  | LLMChainRun llm_model string
  | ChatCall llm_model "message list"
  | RetrievalQACall llm_model string "document list"
  | Stderr string
  | Stdout string
  | HaloStart string
  | HaloSucceed string

text \<open>
  The state the code works on. A FAISS object lives in memory and is mutated in place
  (\<^verbatim>\<open>add_documents\<close>), so the objects are kept in a store addressed by position: a reference
  is an index into \<open>heap\<close>, and a new object is appended. \<open>disk\<close> holds the persisted vector
  stores by index path. A vector store is the list of its chunks in insertion order.
\<close>

record world =
  heap :: "document list list"
  disk :: "string \<rightharpoonup> document list"
  trace :: "event list"

text \<open>
  The collaborators whose code is outside the repository's sources, as parameters:
  the platform's \<^verbatim>\<open>os.path\<close>, the Loader (\<^verbatim>\<open>utils.load_files\<close>), the text splitter, the cost
  estimate (\<^verbatim>\<open>utils.calculate_cost\<close>), the similarity search of the vector store, and
  Python's formatting of a FAISS object, of a float and of a list of strings.
\<close>

record ext =
  os_path_normpath :: "string \<Rightarrow> string"
  os_path_join :: "string list \<Rightarrow> string"
  os_path_abspath :: "string \<Rightarrow> string"
  load_files :: "string \<Rightarrow> document list"
  split_documents :: "int \<Rightarrow> int \<Rightarrow> document list \<Rightarrow> document list"
  calculate_cost :: "document list \<Rightarrow> string \<Rightarrow> real"
  similarity_search :: "document list \<Rightarrow> string \<Rightarrow> int \<Rightarrow> error + document list"
  str_object :: "nat \<Rightarrow> string"
  str_float :: "real \<Rightarrow> string"
  format_5f :: "real \<Rightarrow> string"
  str_list :: "string list \<Rightarrow> string"

datatype llm_class = BaseLLM | LocalLLM | OpenAILLM

record llm_instance =
  self_class :: llm_class
  self_config :: config
  self_llm :: llm_model
  self_root_dir :: string
  self_vector_store :: nat

section \<open>Strings and output\<close>

definition nl :: string where
  "nl = [CHR 0x0A]"

text \<open>The characters U+2718 and U+1F4C4 of the messages, in UTF-8.\<close>

definition heavy_ballot_x :: string where
  "heavy_ballot_x = [CHR 0xE2, CHR 0x9C, CHR 0x98]"

definition page_facing_up :: string where
  "page_facing_up = [CHR 0xF0, CHR 0x9F, CHR 0x93, CHR 0x84]"

text \<open>\<^verbatim>\<open>sep.join(xs)\<close>\<close>

fun str_join :: "string \<Rightarrow> string list \<Rightarrow> string" where
  "str_join sep [] = []"
| "str_join sep [x] = x"
| "str_join sep (x # y # ys) = x @ sep @ str_join sep (y # ys)"

text \<open>\<^verbatim>\<open>str(n)\<close> for the result of \<^verbatim>\<open>len\<close>\<close>

fun str_nat :: "nat \<Rightarrow> string" where
  "str_nat n =
     (if n < 10 then [char_of (48 + n)]
      else str_nat (n div 10) @ [char_of (48 + n mod 10)])"

declare str_nat.simps [simp del]

definition emit :: "event \<Rightarrow> world \<Rightarrow> world" where
  "emit e w = w\<lparr>trace := trace w @ [e]\<rparr>"

text \<open>\<^verbatim>\<open>sys.stderr.write(s)\<close> and \<^verbatim>\<open>print(s)\<close>\<close>

definition stderr_write :: "string \<Rightarrow> world \<Rightarrow> world" where
  "stderr_write s w = emit (Stderr s) w"

definition py_print :: "string \<Rightarrow> world \<Rightarrow> world" where
  "py_print s w = emit (Stdout (s @ nl)) w"

section \<open>The vector store library and the persisted index\<close>

text \<open>
  \<^verbatim>\<open>FAISS.from_documents(texts, embeddings)\<close> submits the texts to the embedding provider
  and returns a new store object holding them; \<^verbatim>\<open>db.add_documents(texts)\<close> embeds the
  texts and appends them to the object; \<^verbatim>\<open>db.save_local(path)\<close> writes the object's
  content to the path.
\<close>

definition FAISS_from_documents :: "document list \<Rightarrow> embeddings \<Rightarrow> world \<Rightarrow> nat \<times> world" where
  "FAISS_from_documents texts embeddings w =
     (length (heap w), emit (Embed texts) (w\<lparr>heap := heap w @ [texts]\<rparr>))"

definition add_documents :: "nat \<Rightarrow> document list \<Rightarrow> world \<Rightarrow> world" where
  "add_documents db texts w =
     emit (Embed texts) (w\<lparr>heap := (heap w)[db := heap w ! db @ texts]\<rparr>)"

definition save_local :: "nat \<Rightarrow> string \<Rightarrow> world \<Rightarrow> world" where
  "save_local db path w =
     emit (SaveLocal path) (w\<lparr>disk := (disk w)(path \<mapsto> heap w ! db)\<rparr>)"

text \<open>
  \<^verbatim>\<open>db.remove_documents_where(pred)\<close> at line 94 of \<^verbatim>\<open>LLM.py\<close>. The FAISS class of the
  vector store library has no attribute of this name, so the attribute lookup raises
  \<^verbatim>\<open>AttributeError\<close> and no entry leaves the object.
\<close>

definition remove_documents_where ::
  "nat \<Rightarrow> (document \<Rightarrow> bool) \<Rightarrow> world \<Rightarrow> (error + unit) \<times> world" where
  "remove_documents_where db pred w = (Inl (AttributeError ''remove_documents_where''), w)"

text \<open>
  \<^verbatim>\<open>FAISS.load_local(index_path)\<close> at line 74 of \<^verbatim>\<open>LLM.py\<close>. The library's
  \<^verbatim>\<open>load_local\<close> takes the folder and the embeddings; the call passes the folder alone
  (\<^verbatim>\<open>_create_vector_store\<close> hands the embeddings to its loader, \<^verbatim>\<open>_update_vector_store\<close>
  leaves its \<^verbatim>\<open>embeddings\<close> parameter unused), so it raises \<^verbatim>\<open>TypeError\<close> before anything is
  read. The result type keeps the \<^verbatim>\<open>None\<close> the caller tests for.
\<close>

definition FAISS_load_local :: "string \<Rightarrow> world \<Rightarrow> (error + nat option) \<times> world" where
  "FAISS_load_local path w = (Inl (TypeError ''FAISS.load_local''), w)"

text \<open>
  Modelled from the spec: \<^verbatim>\<open>utils.get_local_vector_store\<close> is imported by both modules
  and is not among the sources. The specification: "If a store exists at indexPath, loads
  and returns it"; the callers test the result against \<^verbatim>\<open>None\<close>.
\<close>

definition get_local_vector_store :: "embeddings \<Rightarrow> string \<Rightarrow> world \<Rightarrow> nat option \<times> world" where
  "get_local_vector_store embeddings path w =
     (case disk w path of
        None \<Rightarrow> (None, emit (GetLocalVectorStore path) w)
      | Some s \<Rightarrow> (Some (length (heap w)), emit (GetLocalVectorStore path) (w\<lparr>heap := heap w @ [s]\<rparr>)))"

text \<open>
  Modelled from the spec: \<^verbatim>\<open>consts.MODEL_TYPES\<close> is imported by both modules and is not
  among the sources. The specification names the model types \<^verbatim>\<open>openai\<close> and \<^verbatim>\<open>local\<close>.
\<close>

definition MODEL_TYPES_OPENAI :: string where
  "MODEL_TYPES_OPENAI = ''openai''"

definition MODEL_TYPES_LOCAL :: string where
  "MODEL_TYPES_LOCAL = ''local''"

section \<open>llm.py\<close>

text \<open>
  The index path both \<^verbatim>\<open>_create_vector_store\<close> and \<^verbatim>\<open>_update_vector_store\<close> compute:
  \<^verbatim>\<open>os.path.join(os.path.normpath(root_dir), "vector_store", index)\<close>.
\<close>

definition index_path :: "ext \<Rightarrow> string \<Rightarrow> string \<Rightarrow> string" where
  "index_path ext root_dir index =
     os_path_join ext [os_path_normpath ext root_dir, ''vector_store'', index]"

text \<open>
  \<^verbatim>\<open>BaseLLM._create_vector_store\<close> of \<^verbatim>\<open>llm.py\<close>, lines 49 to 66: the part after the
  reuse test. Its \<open>root_dir\<close> is the normalised one.
\<close>

definition build_vector_store_llm_py ::
  "ext \<Rightarrow> config \<Rightarrow> embeddings \<Rightarrow> string \<Rightarrow> string \<Rightarrow> string \<Rightarrow> world \<Rightarrow> (error + nat) \<times> world" where
  "build_vector_store_llm_py ext cfg embeddings index root_dir ipath w =
     (let docs = load_files ext root_dir;
          w1 = emit (LoadFiles root_dir) w
      in if length docs = 0
         then (Inl (SystemExit 0), stderr_write (heavy_ballot_x @ '' No documents found'') w1)
         else
           let texts = split_documents ext (get_chunk_size cfg) (get_chunk_overlap cfg) docs;
               w2 = emit (SplitDocuments (get_chunk_size cfg) (get_chunk_overlap cfg) docs) w1;
               w3 = (if index = MODEL_TYPES_OPENAI
                     then stderr_write
                            (''Creating a vector store with estimated cost ~$'' @
                               format_5f ext (calculate_cost ext docs (get_model_name cfg)))
                            (emit (CalculateCost docs (get_model_name cfg)) w2)
                     else w2)
           in case FAISS_from_documents texts embeddings w3 of
                (db, w4) \<Rightarrow>
                  (Inr db, save_local db ipath (add_documents db texts w4)))"

text \<open>\<^verbatim>\<open>BaseLLM._create_vector_store\<close> of \<^verbatim>\<open>llm.py\<close>\<close>

definition create_vector_store_llm_py ::
  "ext \<Rightarrow> config \<Rightarrow> embeddings \<Rightarrow> string \<Rightarrow> string \<Rightarrow> bool \<Rightarrow> world \<Rightarrow> (error + nat) \<times> world" where
  "create_vector_store_llm_py ext cfg embeddings index root_dir0 force_recreate w =
     (let root_dir = os_path_normpath ext root_dir0;
          ipath = os_path_join ext [root_dir, ''vector_store'', index]
      in if \<not> force_recreate
         then (case get_local_vector_store embeddings ipath w of
                 (Some new_db, w1) \<Rightarrow>
                   (Inr new_db,
                    stderr_write (''Existing local vector store found: '' @ str_object ext new_db) w1)
               | (None, w1) \<Rightarrow>
                   build_vector_store_llm_py ext cfg embeddings index root_dir ipath w1)
         else build_vector_store_llm_py ext cfg embeddings index root_dir ipath w)"

text \<open>\<^verbatim>\<open>LocalLLM._create_store\<close>, \<^verbatim>\<open>OpenAILLM._create_store\<close> and \<^verbatim>\<open>BaseLLM._create_store\<close>\<close>

definition create_store_llm_py ::
  "ext \<Rightarrow> llm_class \<Rightarrow> config \<Rightarrow> string \<Rightarrow> bool \<Rightarrow> world \<Rightarrow> (error + nat) \<times> world" where
  "create_store_llm_py ext c cfg root_dir force_recreate w =
     (case c of
        BaseLLM \<Rightarrow> (Inl (NotImplementedError ''Subclasses must implement this method.''), w)
      | LocalLLM \<Rightarrow>
          create_vector_store_llm_py ext cfg (HuggingFaceEmbeddings ''all-MiniLM-L6-v2'')
            MODEL_TYPES_LOCAL root_dir False w
      | OpenAILLM \<Rightarrow>
          create_vector_store_llm_py ext cfg (OpenAIEmbeddings (get_api_key cfg))
            MODEL_TYPES_OPENAI root_dir force_recreate w)"

text \<open>\<^verbatim>\<open>_create_model\<close> of the three classes\<close>

definition create_model_llm_py :: "llm_class \<Rightarrow> config \<Rightarrow> error + llm_model" where
  "create_model_llm_py c cfg =
     (case c of
        BaseLLM \<Rightarrow> Inl (NotImplementedError ''Subclasses must implement this method.'')
      | LocalLLM \<Rightarrow> Inr (GPT4All (get_model_path cfg) (get_max_tokens cfg))
      | OpenAILLM \<Rightarrow>
          Inr (ChatOpenAI (get_model_name cfg) (get_api_key cfg) (get_max_tokens cfg)
                 (Some (get_temperature cfg))))"

text \<open>
  \<^verbatim>\<open>BaseLLM.__init__\<close>: the model first, then the store, with \<^verbatim>\<open>force_recreate\<close> at its
  default.
\<close>

definition init_llm_py ::
  "ext \<Rightarrow> llm_class \<Rightarrow> string \<Rightarrow> config \<Rightarrow> world \<Rightarrow> (error + llm_instance) \<times> world" where
  "init_llm_py ext c root_dir cfg w =
     (case create_model_llm_py c cfg of
        Inl e \<Rightarrow> (Inl e, w)
      | Inr m \<Rightarrow>
          (case create_store_llm_py ext c cfg root_dir False w of
             (Inl e, w1) \<Rightarrow> (Inl e, w1)
           | (Inr vs, w1) \<Rightarrow>
               (Inr \<lparr>self_class = c, self_config = cfg, self_llm = m,
                      self_root_dir = root_dir, self_vector_store = vs\<rparr>, w1)))"

text \<open>
  \<^verbatim>\<open>BaseLLM.embedding_search\<close>: the search runs on the object \<^verbatim>\<open>self.vector_store\<close>
  refers to.
\<close>

definition embedding_search ::
  "ext \<Rightarrow> llm_instance \<Rightarrow> string \<Rightarrow> int \<Rightarrow> world \<Rightarrow> (error + document list) \<times> world" where
  "embedding_search ext self query n w =
     (similarity_search ext (heap w ! self_vector_store self) query n,
      emit (Search query n) w)"

text \<open>The context block both \<^verbatim>\<open>send_query\<close> of \<^verbatim>\<open>llm.py\<close> build from the retrieved chunks.\<close>

definition content_block :: "document list \<Rightarrow> string" where
  "content_block docs =
     str_join nl (map (\<lambda>s. ''content: '' @ nl @ ''```'' @ page_content s @ ''```'') docs)"

text \<open>
  \<^verbatim>\<open>LocalLLM.send_query\<close>. The chain formats the template with the question and the
  content and hands the prompt to the model.
\<close>

definition send_query_LocalLLM ::
  "ext \<Rightarrow> llm_instance \<Rightarrow> string \<Rightarrow> world \<Rightarrow> (error + unit) \<times> world" where
  "send_query_LocalLLM ext self query w =
     (case embedding_search ext self query (get_k (self_config self)) w of
        (Inl e, w1) \<Rightarrow> (Inl e, w1)
      | (Inr docs, w1) \<Rightarrow>
          (let content = content_block docs;
               prompt = ''Given the following content, your task is to answer the question.'' @ nl @
                        ''Question: '' @ query @ nl @ content;
               w2 = emit (LLMChainRun (self_llm self) prompt) w1;
               file_paths = map (\<lambda>s. os_path_abspath ext (source (metadata s))) docs
           in (Inr (), stderr_write (str_join nl (map (\<lambda>file_path. file_path @ '':'') file_paths)) w2)))"

text \<open>\<^verbatim>\<open>OpenAILLM.send_query\<close>\<close>

definition send_query_OpenAILLM ::
  "ext \<Rightarrow> llm_instance \<Rightarrow> string \<Rightarrow> world \<Rightarrow> (error + unit) \<times> world" where
  "send_query_OpenAILLM ext self query w =
     (case embedding_search ext self query (get_k (self_config self)) w of
        (Inl e, w1) \<Rightarrow> (Inl e, w1)
      | (Inr docs, w1) \<Rightarrow>
          (let content = content_block docs;
               prompt = ''Given the following snippets of related content, respond with the answer to the question. '' @
                        nl @ content;
               messages = [SystemMessage prompt, HumanMessage query];
               w2 = emit (ChatCall (self_llm self) messages) w1;
               file_paths = map (\<lambda>s. os_path_abspath ext (source (metadata s))) docs;
               w3 = stderr_write (''AI prompt:'' @ nl @ prompt) w2;
               w4 = stderr_write (''User query:'' @ nl @ query) w3
           in (Inr (), stderr_write (''Relevant files:'' @ nl @ str_list ext file_paths) w4)))"

section \<open>LLM.py\<close>

text \<open>
  \<^verbatim>\<open>BaseLLM.send_query\<close> of \<^verbatim>\<open>LLM.py\<close>. The \<^verbatim>\<open>RetrievalQA\<close> chain retrieves with the
  store's retriever (\<^verbatim>\<open>k = int(k)\<close>), hands the retrieved documents and the question to
  the model and returns the retrieved documents as \<^verbatim>\<open>source_documents\<close>.
\<close>

definition send_query_LLM_py ::
  "ext \<Rightarrow> llm_instance \<Rightarrow> string \<Rightarrow> world \<Rightarrow> (error + unit) \<times> world" where
  "send_query_LLM_py ext self question w =
     (let n = get_k (self_config self);
          w1 = emit (Search question n) w
      in case similarity_search ext (heap w ! self_vector_store self) question n of
           Inl e \<Rightarrow> (Inl e, w1)
         | Inr source_documents \<Rightarrow>
             (let w2 = emit (RetrievalQACall (self_llm self) question source_documents) w1
              in (Inr (),
                  py_print
                    (nl @ str_join nl
                       (map (\<lambda>s. page_facing_up @ '' '' @
                                  os_path_abspath ext (source (metadata s)) @ '':'')
                          source_documents))
                    w2)))"

text \<open>
  \<^verbatim>\<open>BaseLLM._create_vector_store\<close> of \<^verbatim>\<open>LLM.py\<close>, lines 49 to 65: the part after the
  reuse test. Its \<open>root_dir\<close> is the normalised one.
\<close>

definition build_vector_store_LLM_py ::
  "ext \<Rightarrow> config \<Rightarrow> embeddings \<Rightarrow> string \<Rightarrow> string \<Rightarrow> string \<Rightarrow> world \<Rightarrow> (error + nat) \<times> world" where
  "build_vector_store_LLM_py ext cfg embeddings index root_dir ipath w =
     (let docs = load_files ext root_dir;
          w1 = emit (LoadFiles root_dir) w
      in if length docs = 0
         then (Inl (SystemExit 0), py_print (heavy_ballot_x @ '' No documents found'') w1)
         else
           let texts = split_documents ext (get_chunk_size cfg) (get_chunk_overlap cfg) docs;
               w2 = emit (SplitDocuments (get_chunk_size cfg) (get_chunk_overlap cfg) docs) w1;
               w3 = (if index = MODEL_TYPES_OPENAI
                     then py_print
                            (str_float ext (calculate_cost ext docs (get_model_name cfg)))
                            (emit (CalculateCost docs (get_model_name cfg)) w2)
                     else w2);
               w4 = emit (HaloStart (''Creating vector store for '' @ str_nat (length docs) @
                                     '' documents'')) w3
           in case FAISS_from_documents texts embeddings w4 of
                (db, w5) \<Rightarrow>
                  (Inr db,
                   emit (HaloSucceed (''Created vector store for '' @ str_nat (length docs) @
                                      '' documents''))
                     (save_local db ipath (add_documents db texts w5))))"

text \<open>\<^verbatim>\<open>BaseLLM._create_vector_store\<close> of \<^verbatim>\<open>LLM.py\<close>\<close>

definition create_vector_store_LLM_py ::
  "ext \<Rightarrow> config \<Rightarrow> embeddings \<Rightarrow> string \<Rightarrow> string \<Rightarrow> world \<Rightarrow> (error + nat) \<times> world" where
  "create_vector_store_LLM_py ext cfg embeddings index root_dir0 w =
     (let root_dir = os_path_normpath ext root_dir0;
          ipath = os_path_join ext [root_dir, ''vector_store'', index]
      in case get_local_vector_store embeddings ipath w of
           (Some new_db, w1) \<Rightarrow> (Inr new_db, py_print (str_object ext new_db) w1)
         | (None, w1) \<Rightarrow> build_vector_store_LLM_py ext cfg embeddings index root_dir ipath w1)"

text \<open>
  \<^verbatim>\<open>load_file(updated_file_path)\<close> at line 86 of \<^verbatim>\<open>LLM.py\<close>. The module imports
  \<^verbatim>\<open>load_files\<close> from \<^verbatim>\<open>utils\<close> and binds the name \<^verbatim>\<open>load_file\<close> nowhere (the comment
  beside the call says "assuming load_file function is defined"), so evaluating the name
  raises \<^verbatim>\<open>NameError\<close>.
\<close>

definition load_file :: "string \<Rightarrow> world \<Rightarrow> (error + document list) \<times> world" where
  "load_file file_path w = (Inl (NameError ''load_file''), w)"

text \<open>
  The loop of \<^verbatim>\<open>_update_vector_store\<close> (lines 84 to 97) over the updated file paths, on
  the store object \<open>db\<close>. An exception leaves the loop.
\<close>

fun update_loop :: "ext \<Rightarrow> config \<Rightarrow> nat \<Rightarrow> string list \<Rightarrow> world \<Rightarrow> (error + unit) \<times> world" where
  "update_loop ext cfg db [] w = (Inr (), w)"
| "update_loop ext cfg db (updated_file_path # rest) w =
     (case load_file updated_file_path w of
        (Inl e, w1) \<Rightarrow> (Inl e, w1)
      | (Inr updated_docs, w1) \<Rightarrow>
          if length updated_docs = 0
          then update_loop ext cfg db rest
                 (py_print (heavy_ballot_x @ '' No updated documents found for file path: '' @
                            updated_file_path) w1)
          else
            (let updated_texts =
                   split_documents ext (get_chunk_size cfg) (get_chunk_overlap cfg) updated_docs;
                 w2 = emit (SplitDocuments (get_chunk_size cfg) (get_chunk_overlap cfg) updated_docs) w1
             in case remove_documents_where db
                       (\<lambda>doc. source (metadata doc) = updated_file_path) w2 of
                  (Inl e, w3) \<Rightarrow> (Inl e, w3)
                | (Inr u, w3) \<Rightarrow> update_loop ext cfg db rest (add_documents db updated_texts w3)))"

text \<open>
  \<^verbatim>\<open>BaseLLM._update_vector_store\<close> of \<^verbatim>\<open>LLM.py\<close>. Its \<open>embeddings\<close> parameter is used
  nowhere in the body.
\<close>

definition update_vector_store_LLM_py ::
  "ext \<Rightarrow> config \<Rightarrow> string list \<Rightarrow> embeddings \<Rightarrow> string \<Rightarrow> string \<Rightarrow> world \<Rightarrow> (error + nat) \<times> world" where
  "update_vector_store_LLM_py ext cfg updated_file_paths embeddings index root_dir0 w =
     (let root_dir = os_path_normpath ext root_dir0;
          ipath = os_path_join ext [root_dir, ''vector_store'', index]
      in case FAISS_load_local ipath w of
           (Inl e, w1) \<Rightarrow> (Inl e, w1)
         | (Inr None, w1) \<Rightarrow>
             (Inl (SystemExit 0), py_print (heavy_ballot_x @ '' No existing vector store found'') w1)
         | (Inr (Some db), w1) \<Rightarrow>
             (let w2 = emit (HaloStart (''Updating vector store for '' @
                                        str_nat (length updated_file_paths) @ '' documents'')) w1
              in case update_loop ext cfg db updated_file_paths w2 of
                   (Inl e, w3) \<Rightarrow> (Inl e, w3)
                 | (Inr u, w3) \<Rightarrow>
                     (Inr db,
                      emit (HaloSucceed (''Updated vector store for '' @
                                         str_nat (length updated_file_paths) @ '' documents''))
                        (save_local db ipath w3))))"

text \<open>\<^verbatim>\<open>_create_store\<close> and \<^verbatim>\<open>_create_model\<close> of the three classes of \<^verbatim>\<open>LLM.py\<close>\<close>

definition create_store_LLM_py ::
  "ext \<Rightarrow> llm_class \<Rightarrow> config \<Rightarrow> string \<Rightarrow> world \<Rightarrow> (error + nat) \<times> world" where
  "create_store_LLM_py ext c cfg root_dir w =
     (case c of
        BaseLLM \<Rightarrow> (Inl (NotImplementedError ''Subclasses must implement this method.''), w)
      | LocalLLM \<Rightarrow>
          create_vector_store_LLM_py ext cfg (HuggingFaceEmbeddings ''all-MiniLM-L6-v2'')
            MODEL_TYPES_LOCAL root_dir w
      | OpenAILLM \<Rightarrow>
          create_vector_store_LLM_py ext cfg (OpenAIEmbeddings (get_api_key cfg))
            MODEL_TYPES_OPENAI root_dir w)"

definition create_model_LLM_py :: "llm_class \<Rightarrow> config \<Rightarrow> error + llm_model" where
  "create_model_LLM_py c cfg =
     (case c of
        BaseLLM \<Rightarrow> Inl (NotImplementedError ''Subclasses must implement this method.'')
      | LocalLLM \<Rightarrow> Inr (GPT4All (get_model_path cfg) (get_max_tokens cfg))
      | OpenAILLM \<Rightarrow>
          Inr (ChatOpenAI (get_model_name cfg) (get_api_key cfg) (get_max_tokens cfg) None))"

text \<open>\<^verbatim>\<open>BaseLLM.__init__\<close> of \<^verbatim>\<open>LLM.py\<close>: the one place that assigns \<^verbatim>\<open>self.vector_store\<close>.\<close>

definition init_LLM_py ::
  "ext \<Rightarrow> llm_class \<Rightarrow> string \<Rightarrow> config \<Rightarrow> world \<Rightarrow> (error + llm_instance) \<times> world" where
  "init_LLM_py ext c root_dir cfg w =
     (case create_model_LLM_py c cfg of
        Inl e \<Rightarrow> (Inl e, w)
      | Inr m \<Rightarrow>
          (case create_store_LLM_py ext c cfg root_dir w of
             (Inl e, w1) \<Rightarrow> (Inl e, w1)
           | (Inr vs, w1) \<Rightarrow>
               (Inr \<lparr>self_class = c, self_config = cfg, self_llm = m,
                      self_root_dir = root_dir, self_vector_store = vs\<rparr>, w1)))"

section \<open>Auxiliary definitions\<close>

text \<open>Which events persist a store, and which submit texts to the embedding provider.\<close>

fun is_SaveLocal :: "event \<Rightarrow> bool" where
  "is_SaveLocal (SaveLocal p) = True"
| "is_SaveLocal e = False"

fun is_Embed :: "event \<Rightarrow> bool" where
  "is_Embed (Embed ts) = True"
| "is_Embed e = False"

text \<open>
  The deduplication the specification describes for the provenance list: each distinct
  path once, at the position of its first occurrence.
\<close>

fun dedup_first :: "'a list \<Rightarrow> 'a list" where
  "dedup_first [] = []"
| "dedup_first (x # xs) = x # dedup_first (filter (\<lambda>y. y \<noteq> x) xs)"

section \<open>An example environment\<close>

text \<open>
  A small repository with the files \<^verbatim>\<open>repo/a.py\<close> and \<^verbatim>\<open>repo/b.py\<close>, a splitter that keeps
  each document as one chunk, and a search that returns the first \<open>k\<close> entries of the store.
  \<open>example_chunks\<close> is the store \<^verbatim>\<open>_create_vector_store\<close> builds for it.
\<close>

definition example_doc :: "string \<Rightarrow> string \<Rightarrow> document" where
  "example_doc path txt = \<lparr>page_content = txt, metadata = \<lparr>source = path\<rparr>\<rparr>"

definition example_ext :: ext where
  "example_ext =
     \<lparr>os_path_normpath = (\<lambda>p. p),
      os_path_join = str_join ''/'',
      os_path_abspath = (\<lambda>p. ''/work/'' @ p),
      load_files = (\<lambda>root_dir. if root_dir = ''repo''
                             then [example_doc ''repo/a.py'' ''old a'', example_doc ''repo/b.py'' ''b'']
                             else []),
      split_documents = (\<lambda>chunk_size chunk_overlap docs. docs),
      calculate_cost = (\<lambda>docs model_name. 0),
      similarity_search = (\<lambda>store query n. Inr (take (nat n) store)),
      str_object = (\<lambda>r. ''<FAISS>''),
      str_float = (\<lambda>x. ''0.0''),
      format_5f = (\<lambda>x. ''0.00000''),
      str_list = (\<lambda>xs. ''['' @ str_join '', '' xs @ '']'')\<rparr>"

definition example_config :: "int \<Rightarrow> config" where
  "example_config n =
     \<lparr>get_model_type = ''local'', get_chunk_size = 200, get_chunk_overlap = 20, get_k = n,
      get_model_name = ''gpt-3.5-turbo'', get_model_path = ''model.bin'', get_api_key = ''key'',
      get_max_tokens = 1024, get_temperature = 0\<rparr>"

definition example_chunks :: "document list" where
  "example_chunks =
     [example_doc ''repo/a.py'' ''old a'', example_doc ''repo/b.py'' ''b'',
      example_doc ''repo/a.py'' ''old a'', example_doc ''repo/b.py'' ''b'']"

definition example_fresh :: world where
  "example_fresh = \<lparr>heap = [], disk = Map.empty, trace = []\<rparr>"

definition example_memory :: "document list \<Rightarrow> world" where
  "example_memory s = \<lparr>heap = [s], disk = [''repo/vector_store/local'' \<mapsto> s], trace = []\<rparr>"

definition example_self :: "int \<Rightarrow> llm_instance" where
  "example_self n =
     \<lparr>self_class = LocalLLM, self_config = example_config n,
      self_llm = GPT4All ''model.bin'' 1024, self_root_dir = ''repo'', self_vector_store = 0\<rparr>"

text \<open>The same environment with a search that raises for \<open>k < 1\<close>.\<close>

definition example_ext_strict :: ext where
  "example_ext_strict =
     example_ext\<lparr>similarity_search :=
       (\<lambda>store query n. if n < 1 then Inl (SearchError ''AssertionError'')
                          else Inr (take (nat n) store))\<rparr>"

section \<open>Basic facts\<close>

lemmas world_ops = emit_def stderr_write_def py_print_def FAISS_from_documents_def add_documents_def
  save_local_def get_local_vector_store_def

lemmas example_defs = example_doc_def example_ext_def example_config_def example_chunks_def
  example_fresh_def example_memory_def example_self_def index_path_def

section \<open>Creating or loading the vector store\<close>

lemma create_llm_py_persists:
  assumes "create_vector_store_llm_py ext cfg emb index root_dir force w0 = (Inr db, w)"
  shows "disk w (index_path ext root_dir index) = Some (heap w ! db)"
  using assms
  by (auto simp: create_vector_store_llm_py_def build_vector_store_llm_py_def index_path_def
        Let_def world_ops split: if_splits option.splits)

lemma create_LLM_py_persists:
  assumes "create_vector_store_LLM_py ext cfg emb index root_dir w0 = (Inr db, w)"
  shows "disk w (index_path ext root_dir index) = Some (heap w ! db)"
  using assms
  by (auto simp: create_vector_store_LLM_py_def build_vector_store_LLM_py_def index_path_def
        Let_def world_ops split: if_splits option.splits)

lemma create_llm_py_reuse:
  assumes "disk w (index_path ext root_dir index) = Some s"
  shows "create_vector_store_llm_py ext cfg emb index root_dir False w =
           (Inr (length (heap w)),
            w\<lparr>heap := heap w @ [s],
              trace := trace w @
                [GetLocalVectorStore (index_path ext root_dir index),
                 Stderr (''Existing local vector store found: '' @ str_object ext (length (heap w)))]\<rparr>)"
  using assms
  by (simp add: create_vector_store_llm_py_def index_path_def Let_def world_ops)

lemma create_LLM_py_reuse:
  assumes "disk w (index_path ext root_dir index) = Some s"
  shows "create_vector_store_LLM_py ext cfg emb index root_dir w =
           (Inr (length (heap w)),
            w\<lparr>heap := heap w @ [s],
              trace := trace w @
                [GetLocalVectorStore (index_path ext root_dir index),
                 Stdout (str_object ext (length (heap w)) @ nl)]\<rparr>)"
  using assms
  by (simp add: create_vector_store_LLM_py_def index_path_def Let_def world_ops)

text \<open>
  C1: if a persisted vector store exists at the computed index path and \<^verbatim>\<open>force_recreate\<close>
  is not set, \<^verbatim>\<open>_create_vector_store\<close> (both modules; \<^verbatim>\<open>LLM.py\<close> has no such flag) returns
  a new object holding the persisted store, and all it does besides is the lookup and one
  message: no document is loaded, nothing is chunked, nothing is submitted to the embedding
  provider. Hence, after any call that returned a store, a second call for the same root
  directory and index without \<^verbatim>\<open>force_recreate\<close> takes this path again and returns the
  content of the store the first call returned.
\<close>

theorem create_or_load_reuses_persisted_store:
  "(disk w (index_path ext root_dir index) = Some s \<longrightarrow>
      create_vector_store_llm_py ext cfg emb index root_dir False w =
        (Inr (length (heap w)),
         w\<lparr>heap := heap w @ [s],
           trace := trace w @
             [GetLocalVectorStore (index_path ext root_dir index),
              Stderr (''Existing local vector store found: '' @ str_object ext (length (heap w)))]\<rparr>) \<and>
      create_vector_store_LLM_py ext cfg emb index root_dir w =
        (Inr (length (heap w)),
         w\<lparr>heap := heap w @ [s],
           trace := trace w @
             [GetLocalVectorStore (index_path ext root_dir index),
              Stdout (str_object ext (length (heap w)) @ nl)]\<rparr>)) \<and>
   (create_vector_store_llm_py ext cfg emb index root_dir force w0 = (Inr db, w) \<longrightarrow>
      create_vector_store_llm_py ext cfg' emb' index root_dir False w =
        (Inr (length (heap w)),
         w\<lparr>heap := heap w @ [heap w ! db],
           trace := trace w @
             [GetLocalVectorStore (index_path ext root_dir index),
              Stderr (''Existing local vector store found: '' @ str_object ext (length (heap w)))]\<rparr>)) \<and>
   (create_vector_store_LLM_py ext cfg emb index root_dir w0 = (Inr db, w) \<longrightarrow>
      create_vector_store_LLM_py ext cfg' emb' index root_dir w =
        (Inr (length (heap w)),
         w\<lparr>heap := heap w @ [heap w ! db],
           trace := trace w @
             [GetLocalVectorStore (index_path ext root_dir index),
              Stdout (str_object ext (length (heap w)) @ nl)]\<rparr>))"
proof (intro conjI impI)
  assume "disk w (index_path ext root_dir index) = Some s"
  then show "create_vector_store_llm_py ext cfg emb index root_dir False w =
        (Inr (length (heap w)),
         w\<lparr>heap := heap w @ [s],
           trace := trace w @
             [GetLocalVectorStore (index_path ext root_dir index),
              Stderr (''Existing local vector store found: '' @ str_object ext (length (heap w)))]\<rparr>)"
    by (rule create_llm_py_reuse)
next
  assume "disk w (index_path ext root_dir index) = Some s"
  then show "create_vector_store_LLM_py ext cfg emb index root_dir w =
        (Inr (length (heap w)),
         w\<lparr>heap := heap w @ [s],
           trace := trace w @
             [GetLocalVectorStore (index_path ext root_dir index),
              Stdout (str_object ext (length (heap w)) @ nl)]\<rparr>)"
    by (rule create_LLM_py_reuse)
next
  assume "create_vector_store_llm_py ext cfg emb index root_dir force w0 = (Inr db, w)"
  then have "disk w (index_path ext root_dir index) = Some (heap w ! db)"
    by (rule create_llm_py_persists)
  then show "create_vector_store_llm_py ext cfg' emb' index root_dir False w =
        (Inr (length (heap w)),
         w\<lparr>heap := heap w @ [heap w ! db],
           trace := trace w @
             [GetLocalVectorStore (index_path ext root_dir index),
              Stderr (''Existing local vector store found: '' @ str_object ext (length (heap w)))]\<rparr>)"
    by (rule create_llm_py_reuse)
next
  assume "create_vector_store_LLM_py ext cfg emb index root_dir w0 = (Inr db, w)"
  then have "disk w (index_path ext root_dir index) = Some (heap w ! db)"
    by (rule create_LLM_py_persists)
  then show "create_vector_store_LLM_py ext cfg' emb' index root_dir w =
        (Inr (length (heap w)),
         w\<lparr>heap := heap w @ [heap w ! db],
           trace := trace w @
             [GetLocalVectorStore (index_path ext root_dir index),
              Stdout (str_object ext (length (heap w)) @ nl)]\<rparr>)"
    by (rule create_LLM_py_reuse)
qed

theorem create_or_load_reuses_persisted_store_witness:
  "disk (example_memory example_chunks) (index_path example_ext ''repo'' ''local'') = Some example_chunks \<and>
   create_vector_store_llm_py example_ext (example_config 4) (HuggingFaceEmbeddings ''all-MiniLM-L6-v2'')
     ''local'' ''repo'' False (example_memory example_chunks) =
     (Inr 1,
      \<lparr>heap = [example_chunks, example_chunks],
       disk = [''repo/vector_store/local'' \<mapsto> example_chunks],
       trace = [GetLocalVectorStore ''repo/vector_store/local'',
                Stderr ''Existing local vector store found: <FAISS>'']\<rparr>) \<and>
   fst (create_vector_store_llm_py example_ext (example_config 4) (HuggingFaceEmbeddings ''all-MiniLM-L6-v2'')
     ''local'' ''repo'' False example_fresh) = Inr 0 \<and>
   filter is_Embed (trace (snd
     (create_vector_store_llm_py example_ext (example_config 4) (HuggingFaceEmbeddings ''all-MiniLM-L6-v2'')
        ''local'' ''repo'' False
        (snd (create_vector_store_llm_py example_ext (example_config 4)
                (HuggingFaceEmbeddings ''all-MiniLM-L6-v2'') ''local'' ''repo'' False example_fresh))))) =
   filter is_Embed (trace (snd
     (create_vector_store_llm_py example_ext (example_config 4) (HuggingFaceEmbeddings ''all-MiniLM-L6-v2'')
        ''local'' ''repo'' False example_fresh))) \<and>
   fst (create_vector_store_LLM_py example_ext (example_config 4) (HuggingFaceEmbeddings ''all-MiniLM-L6-v2'')
     ''local'' ''repo'' example_fresh) = Inr 0 \<and>
   filter is_Embed (trace (snd
     (create_vector_store_LLM_py example_ext (example_config 4) (HuggingFaceEmbeddings ''all-MiniLM-L6-v2'')
        ''local'' ''repo''
        (snd (create_vector_store_LLM_py example_ext (example_config 4)
                (HuggingFaceEmbeddings ''all-MiniLM-L6-v2'') ''local'' ''repo'' example_fresh))))) =
   filter is_Embed (trace (snd
     (create_vector_store_LLM_py example_ext (example_config 4) (HuggingFaceEmbeddings ''all-MiniLM-L6-v2'')
        ''local'' ''repo'' example_fresh)))"
proof -
  let ?emb = "HuggingFaceEmbeddings ''all-MiniLM-L6-v2''"
  let ?first = "create_vector_store_llm_py example_ext (example_config 4) ?emb ''local'' ''repo'' False example_fresh"
  let ?first' = "create_vector_store_LLM_py example_ext (example_config 4) ?emb ''local'' ''repo'' example_fresh"
  have stored: "disk (example_memory example_chunks) (index_path example_ext ''repo'' ''local'') = Some example_chunks"
    by (simp add: example_memory_def index_path_def example_ext_def)
  have fst_first: "fst ?first = Inr 0"
    by (simp add: create_vector_store_llm_py_def build_vector_store_llm_py_def Let_def world_ops
          example_defs MODEL_TYPES_OPENAI_def)
  then have first: "?first = (Inr 0, snd ?first)"
    by (metis prod.collapse)
  have fst_first': "fst ?first' = Inr 0"
    by (simp add: create_vector_store_LLM_py_def build_vector_store_LLM_py_def Let_def world_ops
          example_defs MODEL_TYPES_OPENAI_def)
  then have first': "?first' = (Inr 0, snd ?first')"
    by (metis prod.collapse)
  note thm1 = create_or_load_reuses_persisted_store
      [where w = "example_memory example_chunks" and ext = example_ext and root_dir = "''repo''"
         and index = "''local''" and s = example_chunks and cfg = "example_config 4" and emb = ?emb]
  note thm2 = create_or_load_reuses_persisted_store
      [where w = "snd ?first" and ext = example_ext and root_dir = "''repo''"
         and index = "''local''" and cfg = "example_config 4" and emb = ?emb and force = False
         and ?w0.0 = example_fresh and db = 0 and cfg' = "example_config 4" and emb' = ?emb]
  note thm3 = create_or_load_reuses_persisted_store
      [where w = "snd ?first'" and ext = example_ext and root_dir = "''repo''"
         and index = "''local''" and cfg = "example_config 4" and emb = ?emb
         and ?w0.0 = example_fresh and db = 0 and cfg' = "example_config 4" and emb' = ?emb]
  have a: "create_vector_store_llm_py example_ext (example_config 4) ?emb
     ''local'' ''repo'' False (example_memory example_chunks) =
     (Inr 1,
      \<lparr>heap = [example_chunks, example_chunks],
       disk = [''repo/vector_store/local'' \<mapsto> example_chunks],
       trace = [GetLocalVectorStore ''repo/vector_store/local'',
                Stderr ''Existing local vector store found: <FAISS>'']\<rparr>)"
    using thm1 stored by (simp add: example_memory_def index_path_def example_ext_def)
  have b: "filter is_Embed (trace (snd
     (create_vector_store_llm_py example_ext (example_config 4) ?emb ''local'' ''repo'' False (snd ?first)))) =
     filter is_Embed (trace (snd ?first))"
    using thm2 first by simp
  have c: "filter is_Embed (trace (snd
     (create_vector_store_LLM_py example_ext (example_config 4) ?emb ''local'' ''repo'' (snd ?first')))) =
     filter is_Embed (trace (snd ?first'))"
    using thm3 first' by simp
  show ?thesis using stored a fst_first b fst_first' c by simp
qed

lemma build_llm_py_no_documents:
  assumes "load_files ext rd = []"
  shows "build_vector_store_llm_py ext cfg emb index rd ipath w =
           (Inl (SystemExit 0),
            w\<lparr>trace := trace w @ [LoadFiles rd, Stderr (heavy_ballot_x @ '' No documents found'')]\<rparr>)"
  using assms by (simp add: build_vector_store_llm_py_def Let_def world_ops)

lemma build_LLM_py_no_documents:
  assumes "load_files ext rd = []"
  shows "build_vector_store_LLM_py ext cfg emb index rd ipath w =
           (Inl (SystemExit 0),
            w\<lparr>trace := trace w @ [LoadFiles rd, Stdout (heavy_ballot_x @ '' No documents found'' @ nl)]\<rparr>)"
  using assms by (simp add: build_vector_store_LLM_py_def Let_def world_ops)

text \<open>
  C3: with no persisted store at the index path and a Loader that returns no document,
  \<^verbatim>\<open>_create_vector_store\<close> (both modules, and whatever \<^verbatim>\<open>force_recreate\<close> is) ends in
  \<^verbatim>\<open>exit(0)\<close> after the message "No documents found": it returns no store, and the world
  it leaves differs from the one it found in the trace only, so no store object was created
  and nothing was persisted. The trace holds the lookup, the Loader's call and the message:
  nothing was chunked or embedded. The code has no exception class for this: the
  specification's \<^verbatim>\<open>NoDocumentsError\<close> is this message followed by \<^verbatim>\<open>SystemExit\<close>.
\<close>

theorem create_without_documents_exits:
  assumes "disk w (index_path ext root_dir index) = None"
      and "load_files ext (os_path_normpath ext root_dir) = []"
  shows "create_vector_store_llm_py ext cfg emb index root_dir force_recreate w =
           (Inl (SystemExit 0),
            w\<lparr>trace := trace w @
                 (if force_recreate then [] else [GetLocalVectorStore (index_path ext root_dir index)]) @
                 [LoadFiles (os_path_normpath ext root_dir),
                  Stderr (heavy_ballot_x @ '' No documents found'')]\<rparr>) \<and>
         create_vector_store_LLM_py ext cfg emb index root_dir w =
           (Inl (SystemExit 0),
            w\<lparr>trace := trace w @
                 [GetLocalVectorStore (index_path ext root_dir index),
                  LoadFiles (os_path_normpath ext root_dir),
                  Stdout (heavy_ballot_x @ '' No documents found'' @ nl)]\<rparr>) \<and>
         heap (snd (create_vector_store_llm_py ext cfg emb index root_dir force_recreate w)) = heap w \<and>
         disk (snd (create_vector_store_llm_py ext cfg emb index root_dir force_recreate w)) = disk w \<and>
         heap (snd (create_vector_store_LLM_py ext cfg emb index root_dir w)) = heap w \<and>
         disk (snd (create_vector_store_LLM_py ext cfg emb index root_dir w)) = disk w"
proof -
  have a: "create_vector_store_llm_py ext cfg emb index root_dir force_recreate w =
           (Inl (SystemExit 0),
            w\<lparr>trace := trace w @
                 (if force_recreate then [] else [GetLocalVectorStore (index_path ext root_dir index)]) @
                 [LoadFiles (os_path_normpath ext root_dir),
                  Stderr (heavy_ballot_x @ '' No documents found'')]\<rparr>)"
    using assms
    by (simp add: create_vector_store_llm_py_def index_path_def Let_def
          get_local_vector_store_def emit_def build_llm_py_no_documents)
  have b: "create_vector_store_LLM_py ext cfg emb index root_dir w =
           (Inl (SystemExit 0),
            w\<lparr>trace := trace w @
                 [GetLocalVectorStore (index_path ext root_dir index),
                  LoadFiles (os_path_normpath ext root_dir),
                  Stdout (heavy_ballot_x @ '' No documents found'' @ nl)]\<rparr>)"
    using assms
    by (simp add: create_vector_store_LLM_py_def index_path_def Let_def
          get_local_vector_store_def emit_def build_LLM_py_no_documents)
  show ?thesis
    by (simp add: a b)
qed

theorem create_without_documents_exits_witness:
  "disk example_fresh (index_path example_ext ''nowhere'' ''local'') = None \<and>
   load_files example_ext (os_path_normpath example_ext ''nowhere'') = [] \<and>
   create_vector_store_llm_py example_ext (example_config 4) (HuggingFaceEmbeddings ''all-MiniLM-L6-v2'')
     ''local'' ''nowhere'' False example_fresh =
     (Inl (SystemExit 0),
      \<lparr>heap = [], disk = Map.empty,
       trace = [GetLocalVectorStore ''nowhere/vector_store/local'', LoadFiles ''nowhere'',
                Stderr (heavy_ballot_x @ '' No documents found'')]\<rparr>)"
proof -
  have a: "disk example_fresh (index_path example_ext ''nowhere'' ''local'') = None"
    by (simp add: example_fresh_def)
  have b: "load_files example_ext (os_path_normpath example_ext ''nowhere'') = []"
    by (simp add: example_ext_def)
  from create_without_documents_exits [OF a b, of "example_config 4"
        "HuggingFaceEmbeddings ''all-MiniLM-L6-v2''" False]
  show ?thesis using a b
    by (simp add: example_ext_def example_fresh_def index_path_def)
qed

lemma build_llm_py_twice:
  assumes "load_files ext rd \<noteq> []"
  shows "fst (build_vector_store_llm_py ext cfg emb index rd ipath w) = Inr (length (heap w))"
    and "heap (snd (build_vector_store_llm_py ext cfg emb index rd ipath w)) =
           heap w @ [split_documents ext (get_chunk_size cfg) (get_chunk_overlap cfg) (load_files ext rd) @
                     split_documents ext (get_chunk_size cfg) (get_chunk_overlap cfg) (load_files ext rd)]"
    and "disk (snd (build_vector_store_llm_py ext cfg emb index rd ipath w)) =
           (disk w)(ipath \<mapsto>
              split_documents ext (get_chunk_size cfg) (get_chunk_overlap cfg) (load_files ext rd) @
              split_documents ext (get_chunk_size cfg) (get_chunk_overlap cfg) (load_files ext rd))"
    and "filter is_Embed (trace (snd (build_vector_store_llm_py ext cfg emb index rd ipath w))) =
           filter is_Embed (trace w) @
           [Embed (split_documents ext (get_chunk_size cfg) (get_chunk_overlap cfg) (load_files ext rd)),
            Embed (split_documents ext (get_chunk_size cfg) (get_chunk_overlap cfg) (load_files ext rd))]"
  using assms by (simp_all add: build_vector_store_llm_py_def Let_def world_ops)

lemma build_LLM_py_twice:
  assumes "load_files ext rd \<noteq> []"
  shows "fst (build_vector_store_LLM_py ext cfg emb index rd ipath w) = Inr (length (heap w))"
    and "heap (snd (build_vector_store_LLM_py ext cfg emb index rd ipath w)) =
           heap w @ [split_documents ext (get_chunk_size cfg) (get_chunk_overlap cfg) (load_files ext rd) @
                     split_documents ext (get_chunk_size cfg) (get_chunk_overlap cfg) (load_files ext rd)]"
    and "disk (snd (build_vector_store_LLM_py ext cfg emb index rd ipath w)) =
           (disk w)(ipath \<mapsto>
              split_documents ext (get_chunk_size cfg) (get_chunk_overlap cfg) (load_files ext rd) @
              split_documents ext (get_chunk_size cfg) (get_chunk_overlap cfg) (load_files ext rd))"
    and "filter is_Embed (trace (snd (build_vector_store_LLM_py ext cfg emb index rd ipath w))) =
           filter is_Embed (trace w) @
           [Embed (split_documents ext (get_chunk_size cfg) (get_chunk_overlap cfg) (load_files ext rd)),
            Embed (split_documents ext (get_chunk_size cfg) (get_chunk_overlap cfg) (load_files ext rd))]"
  using assms by (simp_all add: build_vector_store_LLM_py_def Let_def world_ops)

text \<open>
  C9: for a non-empty document set, the store \<^verbatim>\<open>_create_vector_store\<close> creates (there is
  no persisted store, or \<^verbatim>\<open>force_recreate\<close> is set in \<^verbatim>\<open>llm.py\<close>) holds the chunk list twice:
  \<^verbatim>\<open>FAISS.from_documents\<close> builds the store from the chunks and \<^verbatim>\<open>add_documents\<close> adds
  the same chunks again, so every chunk occurs in the store twice as often as in the chunk
  list, the chunk list is submitted to the embedding provider twice, and the doubled list
  is what is persisted. Both modules.
\<close>

theorem fresh_store_holds_each_chunk_twice:
  assumes "load_files ext (os_path_normpath ext root_dir) \<noteq> []"
      and "texts = split_documents ext (get_chunk_size cfg) (get_chunk_overlap cfg)
                     (load_files ext (os_path_normpath ext root_dir))"
      and "r = create_vector_store_llm_py ext cfg emb index root_dir force_recreate w"
      and "r' = create_vector_store_LLM_py ext cfg emb index root_dir w"
  shows "(force_recreate \<or> disk w (index_path ext root_dir index) = None \<longrightarrow>
            fst r = Inr (length (heap w)) \<and>
            heap (snd r) ! length (heap w) = texts @ texts \<and>
            (\<forall>c. count_list (heap (snd r) ! length (heap w)) c = 2 * count_list texts c) \<and>
            disk (snd r) (index_path ext root_dir index) = Some (texts @ texts) \<and>
            filter is_Embed (trace (snd r)) = filter is_Embed (trace w) @ [Embed texts, Embed texts]) \<and>
         (disk w (index_path ext root_dir index) = None \<longrightarrow>
            fst r' = Inr (length (heap w)) \<and>
            heap (snd r') ! length (heap w) = texts @ texts \<and>
            (\<forall>c. count_list (heap (snd r') ! length (heap w)) c = 2 * count_list texts c) \<and>
            disk (snd r') (index_path ext root_dir index) = Some (texts @ texts) \<and>
            filter is_Embed (trace (snd r')) = filter is_Embed (trace w) @ [Embed texts, Embed texts])"
proof (intro conjI impI)
  assume fresh: "force_recreate \<or> disk w (index_path ext root_dir index) = None"
  then have r: "r = build_vector_store_llm_py ext cfg emb index (os_path_normpath ext root_dir)
                 (index_path ext root_dir index)
                 (if force_recreate then w else emit (GetLocalVectorStore (index_path ext root_dir index)) w)"
    using assms(3)
    by (auto simp: create_vector_store_llm_py_def index_path_def Let_def get_local_vector_store_def)
  show "fst r = Inr (length (heap w))"
    unfolding r by (simp add: build_llm_py_twice [OF assms(1)] emit_def)
  show heap_r: "heap (snd r) ! length (heap w) = texts @ texts"
    unfolding r assms(2) by (simp add: build_llm_py_twice [OF assms(1)] emit_def)
  show "\<forall>c. count_list (heap (snd r) ! length (heap w)) c = 2 * count_list texts c"
    unfolding heap_r by simp
  show "disk (snd r) (index_path ext root_dir index) = Some (texts @ texts)"
    unfolding r assms(2) by (simp add: build_llm_py_twice [OF assms(1)])
  show "filter is_Embed (trace (snd r)) = filter is_Embed (trace w) @ [Embed texts, Embed texts]"
    unfolding r assms(2) by (simp add: build_llm_py_twice [OF assms(1)] emit_def)
next
  assume fresh: "disk w (index_path ext root_dir index) = None"
  then have r': "r' = build_vector_store_LLM_py ext cfg emb index (os_path_normpath ext root_dir)
                 (index_path ext root_dir index)
                 (emit (GetLocalVectorStore (index_path ext root_dir index)) w)"
    using assms(4)
    by (simp add: create_vector_store_LLM_py_def index_path_def Let_def get_local_vector_store_def)
  show "fst r' = Inr (length (heap w))"
    unfolding r' by (simp add: build_LLM_py_twice [OF assms(1)] emit_def)
  show heap_r': "heap (snd r') ! length (heap w) = texts @ texts"
    unfolding r' assms(2) by (simp add: build_LLM_py_twice [OF assms(1)] emit_def)
  show "\<forall>c. count_list (heap (snd r') ! length (heap w)) c = 2 * count_list texts c"
    unfolding heap_r' by simp
  show "disk (snd r') (index_path ext root_dir index) = Some (texts @ texts)"
    unfolding r' assms(2) by (simp add: build_LLM_py_twice [OF assms(1)])
  show "filter is_Embed (trace (snd r')) = filter is_Embed (trace w) @ [Embed texts, Embed texts]"
    unfolding r' assms(2) by (simp add: build_LLM_py_twice [OF assms(1)] emit_def)
qed

theorem fresh_store_holds_each_chunk_twice_witness:
  "load_files example_ext (os_path_normpath example_ext ''repo'') \<noteq> [] \<and>
   disk example_fresh (index_path example_ext ''repo'' ''local'') = None \<and>
   fst (create_vector_store_llm_py example_ext (example_config 4)
          (HuggingFaceEmbeddings ''all-MiniLM-L6-v2'') ''local'' ''repo'' False example_fresh) = Inr 0 \<and>
   heap (snd (create_vector_store_llm_py example_ext (example_config 4)
          (HuggingFaceEmbeddings ''all-MiniLM-L6-v2'') ''local'' ''repo'' False example_fresh)) ! 0 =
     example_chunks \<and>
   disk (snd (create_vector_store_LLM_py example_ext (example_config 4)
          (HuggingFaceEmbeddings ''all-MiniLM-L6-v2'') ''local'' ''repo'' example_fresh))
     ''repo/vector_store/local'' = Some example_chunks"
proof -
  have a: "load_files example_ext (os_path_normpath example_ext ''repo'') \<noteq> []"
    by (simp add: example_ext_def)
  have b: "disk example_fresh (index_path example_ext ''repo'' ''local'') = None"
    by (simp add: example_fresh_def)
  from fresh_store_holds_each_chunk_twice [OF a refl refl refl,
        where cfg = "example_config 4" and force_recreate = False and w = example_fresh
          and index = "''local''" and emb = "HuggingFaceEmbeddings ''all-MiniLM-L6-v2''"]
  show ?thesis using a b
    by (simp add: example_defs)
qed

section \<open>Updating the vector store\<close>

text \<open>
  On every input \<^verbatim>\<open>_update_vector_store\<close> ends at its first statement after the path
  computation: the call of \<^verbatim>\<open>FAISS.load_local\<close> raises, and the world is as it was. The
  test for a missing store, the loop and \<^verbatim>\<open>save_local\<close> are never reached. The loop by
  itself ends at its first path, where \<^verbatim>\<open>load_file\<close> raises.
\<close>

lemma update_vector_store_raises:
  "update_vector_store_LLM_py ext cfg updated_file_paths emb index root_dir w =
     (Inl (TypeError ''FAISS.load_local''), w)"
  by (simp add: update_vector_store_LLM_py_def Let_def FAISS_load_local_def)

lemma update_loop_raises:
  "update_loop ext cfg db (updated_file_path # rest) w = (Inl (NameError ''load_file''), w)"
  by (simp add: load_file_def)

text \<open>
  C4 fails on the code. With no persisted store at the index path, the claim has the update
  report the missing store (the message "No existing vector store found", then
  \<^verbatim>\<open>exit(0)\<close>). The code never gets to that test: \<^verbatim>\<open>FAISS.load_local\<close> is called without
  the embeddings and raises \<^verbatim>\<open>TypeError\<close>; nothing is printed and the result is not the
  exit. No store is created.
\<close>

theorem update_without_store_raises_type_error:
  "disk example_fresh (index_path example_ext ''repo'' ''local'') = None \<and>
   update_vector_store_LLM_py example_ext (example_config 4) [''repo/a.py'']
     (HuggingFaceEmbeddings ''all-MiniLM-L6-v2'') ''local'' ''repo'' example_fresh =
     (Inl (TypeError ''FAISS.load_local''), example_fresh) \<and>
   fst (update_vector_store_LLM_py example_ext (example_config 4) [''repo/a.py'']
          (HuggingFaceEmbeddings ''all-MiniLM-L6-v2'') ''local'' ''repo'' example_fresh) \<noteq>
     Inl (SystemExit 0) \<and>
   trace (snd (update_vector_store_LLM_py example_ext (example_config 4) [''repo/a.py'']
          (HuggingFaceEmbeddings ''all-MiniLM-L6-v2'') ''local'' ''repo'' example_fresh)) = []"
  by (simp add: update_vector_store_raises example_fresh_def)

text \<open>
  C5 fails on the code. The batch holds a path that no longer exists and a path that does;
  the claim has the first skipped, the second processed and the store persisted once. The
  code raises \<^verbatim>\<open>TypeError\<close> at \<^verbatim>\<open>FAISS.load_local\<close> before the loop: no path is processed,
  no skip is logged, and \<^verbatim>\<open>save_local\<close> is never called. The loop as written would not
  skip either: at its first path \<^verbatim>\<open>load_file\<close> is an unbound name and raises \<^verbatim>\<open>NameError\<close>,
  which ends the batch.
\<close>

theorem update_batch_is_not_completed:
  "update_vector_store_LLM_py example_ext (example_config 4) [''repo/gone.py'', ''repo/a.py'']
     (HuggingFaceEmbeddings ''all-MiniLM-L6-v2'') ''local'' ''repo'' (example_memory example_chunks) =
     (Inl (TypeError ''FAISS.load_local''), example_memory example_chunks) \<and>
   filter is_SaveLocal
     (trace (snd (update_vector_store_LLM_py example_ext (example_config 4)
                    [''repo/gone.py'', ''repo/a.py''] (HuggingFaceEmbeddings ''all-MiniLM-L6-v2'')
                    ''local'' ''repo'' (example_memory example_chunks)))) = [] \<and>
   update_loop example_ext (example_config 4) 0 [''repo/gone.py'', ''repo/a.py'']
     (example_memory example_chunks) =
     (Inl (NameError ''load_file''), example_memory example_chunks)"
  by (simp add: update_vector_store_raises update_loop_raises example_memory_def
        del: update_loop.simps)

text \<open>
  C2 fails on the code. The store holds two chunks of the old \<^verbatim>\<open>repo/a.py\<close>; the claim has
  an update of that path remove them and add the new chunks. The code raises
  \<^verbatim>\<open>TypeError\<close> at \<^verbatim>\<open>FAISS.load_local\<close>: the persisted store is the one from before the
  update, with both old chunks. The statements the claim describes cannot run as written
  either: the loop raises \<^verbatim>\<open>NameError\<close> at \<^verbatim>\<open>load_file\<close>, and
  \<^verbatim>\<open>remove_documents_where\<close> is no method of the store and raises \<^verbatim>\<open>AttributeError\<close>.
\<close>

theorem update_leaves_stale_chunks:
  "disk (example_memory example_chunks) (index_path example_ext ''repo'' ''local'') =
     Some example_chunks \<and>
   update_vector_store_LLM_py example_ext (example_config 4) [''repo/a.py'']
     (HuggingFaceEmbeddings ''all-MiniLM-L6-v2'') ''local'' ''repo'' (example_memory example_chunks) =
     (Inl (TypeError ''FAISS.load_local''), example_memory example_chunks) \<and>
   map_option (filter (\<lambda>doc. source (metadata doc) = ''repo/a.py''))
     (disk (snd (update_vector_store_LLM_py example_ext (example_config 4) [''repo/a.py'']
                   (HuggingFaceEmbeddings ''all-MiniLM-L6-v2'') ''local'' ''repo''
                   (example_memory example_chunks)))
        (index_path example_ext ''repo'' ''local'')) =
     Some [example_doc ''repo/a.py'' ''old a'', example_doc ''repo/a.py'' ''old a''] \<and>
   update_loop example_ext (example_config 4) 0 [''repo/a.py''] (example_memory example_chunks) =
     (Inl (NameError ''load_file''), example_memory example_chunks) \<and>
   remove_documents_where 0 (\<lambda>doc. source (metadata doc) = ''repo/a.py'')
     (example_memory example_chunks) =
     (Inl (AttributeError ''remove_documents_where''), example_memory example_chunks)"
  by (simp add: update_vector_store_raises update_loop_raises remove_documents_where_def
        example_defs del: update_loop.simps)

section \<open>The instance's store during an update\<close>

text \<open>
  \<^verbatim>\<open>__init__\<close> is the only place that assigns \<^verbatim>\<open>self.vector_store\<close>; the object it refers
  to exists in the world \<^verbatim>\<open>__init__\<close> leaves.
\<close>

lemma init_LLM_py_valid:
  assumes "init_LLM_py ext c root_dir cfg w = (Inr self, w')"
  shows "self_vector_store self < length (heap w')"
  using assms
  by (auto simp: init_LLM_py_def create_store_LLM_py_def create_vector_store_LLM_py_def
        build_vector_store_LLM_py_def Let_def world_ops
        split: sum.splits llm_class.splits prod.splits option.splits if_splits)

text \<open>
  C10: \<^verbatim>\<open>_update_vector_store\<close> has no assignment to a field of \<^verbatim>\<open>self\<close> (its model takes
  the configuration and returns no instance), and it never touches the object
  \<^verbatim>\<open>self.vector_store\<close> refers to: the store it means to change is the one
  \<^verbatim>\<open>FAISS.load_local\<close> would hand it, and that call raises before any object is changed.
  For every instance whose store object exists, the content of that object is the same
  after the update as before, the update does not return that object, and a
  \<^verbatim>\<open>send_query\<close> after the update gives the result and makes the calls and output it
  would have made before the update, so it searches the store as it was before.
\<close>

theorem update_leaves_instance_store:
  assumes "self_vector_store self < length (heap w)"
      and "r = update_vector_store_LLM_py ext (self_config self) updated_file_paths emb index root_dir w"
  shows "heap (snd r) ! self_vector_store self = heap w ! self_vector_store self \<and>
         fst r \<noteq> Inr (self_vector_store self) \<and>
         fst (send_query_LLM_py ext' self q (snd r)) = fst (send_query_LLM_py ext' self q w) \<and>
         drop (length (trace (snd r))) (trace (snd (send_query_LLM_py ext' self q (snd r)))) =
           drop (length (trace w)) (trace (snd (send_query_LLM_py ext' self q w)))"
proof -
  have r: "r = (Inl (TypeError ''FAISS.load_local''), w)"
    by (simp add: assms(2) update_vector_store_raises)
  show ?thesis
    by (simp add: r)
qed

theorem update_leaves_instance_store_witness:
  "self_vector_store (example_self 4) < length (heap (example_memory example_chunks)) \<and>
   heap (snd (update_vector_store_LLM_py example_ext (self_config (example_self 4)) [''repo/a.py'']
                (HuggingFaceEmbeddings ''all-MiniLM-L6-v2'') ''local'' ''repo''
                (example_memory example_chunks))) ! self_vector_store (example_self 4) =
     example_chunks \<and>
   fst (send_query_LLM_py example_ext (example_self 4) ''q''
          (snd (update_vector_store_LLM_py example_ext (self_config (example_self 4)) [''repo/a.py'']
                  (HuggingFaceEmbeddings ''all-MiniLM-L6-v2'') ''local'' ''repo''
                  (example_memory example_chunks)))) = Inr ()"
proof -
  have a: "self_vector_store (example_self 4) < length (heap (example_memory example_chunks))"
    by (simp add: example_defs)
  have b: "fst (send_query_LLM_py example_ext (example_self 4) ''q'' (example_memory example_chunks)) =
             Inr ()"
    by (simp add: send_query_LLM_py_def Let_def py_print_def emit_def example_defs)
  from update_leaves_instance_store [OF a refl, where ext = example_ext
         and updated_file_paths = "[''repo/a.py'']"
         and emb = "HuggingFaceEmbeddings ''all-MiniLM-L6-v2''" and index = "''local''"
         and root_dir = "''repo''" and ext' = example_ext and q = "''q''"]
  have "heap (snd (update_vector_store_LLM_py example_ext (self_config (example_self 4)) [''repo/a.py'']
                (HuggingFaceEmbeddings ''all-MiniLM-L6-v2'') ''local'' ''repo''
                (example_memory example_chunks))) ! self_vector_store (example_self 4) =
        heap (example_memory example_chunks) ! self_vector_store (example_self 4) \<and>
        fst (send_query_LLM_py example_ext (example_self 4) ''q''
          (snd (update_vector_store_LLM_py example_ext (self_config (example_self 4)) [''repo/a.py'']
                  (HuggingFaceEmbeddings ''all-MiniLM-L6-v2'') ''local'' ''repo''
                  (example_memory example_chunks)))) =
        fst (send_query_LLM_py example_ext (example_self 4) ''q'' (example_memory example_chunks))"
    by blast
  then show ?thesis using a b
    by (simp add: example_defs)
qed

section \<open>Answering a question\<close>

lemma length_dedup_first: "length (dedup_first xs) \<le> length xs"
proof (induction xs rule: dedup_first.induct)
  case 1
  then show ?case by simp
next
  case (2 x xs)
  have "length (filter (\<lambda>y. y \<noteq> x) xs) \<le> length xs"
    by (rule length_filter_le)
  with 2 have "length (dedup_first (filter (\<lambda>y. y \<noteq> x) xs)) \<le> length xs"
    by (rule order_trans)
  then show ?case by simp
qed

lemma dedup_first_id_iff: "dedup_first xs = xs \<longleftrightarrow> distinct xs"
proof (induction xs rule: dedup_first.induct)
  case 1
  then show ?case by simp
next
  case (2 x xs)
  show ?case
  proof (cases "x \<in> set xs")
    case True
    then have "length (filter (\<lambda>y. y \<noteq> x) xs) < length xs"
      by (simp add: length_filter_less)
    with length_dedup_first [of "filter (\<lambda>y. y \<noteq> x) xs"]
    have "dedup_first (filter (\<lambda>y. y \<noteq> x) xs) \<noteq> xs"
      by auto
    with True show ?thesis by simp
  next
    case False
    then have "filter (\<lambda>y. y \<noteq> x) xs = xs"
      by (auto simp: filter_id_conv)
    with 2 False show ?thesis by simp
  qed
qed

lemma send_query_LocalLLM_found:
  assumes "similarity_search ext (heap w ! self_vector_store self) q (get_k (self_config self)) = Inr docs"
  shows "send_query_LocalLLM ext self q w =
           (Inr (),
            w\<lparr>trace := trace w @
                 [Search q (get_k (self_config self)),
                  LLMChainRun (self_llm self)
                    (''Given the following content, your task is to answer the question.'' @ nl @
                     ''Question: '' @ q @ nl @ content_block docs),
                  Stderr (str_join nl
                            (map (\<lambda>file_path. file_path @ '':'')
                               (map (\<lambda>s. os_path_abspath ext (source (metadata s))) docs)))]\<rparr>)"
  using assms
  by (simp add: send_query_LocalLLM_def embedding_search_def Let_def stderr_write_def emit_def)

lemma send_query_OpenAILLM_found:
  assumes "similarity_search ext (heap w ! self_vector_store self) q (get_k (self_config self)) = Inr docs"
  shows "send_query_OpenAILLM ext self q w =
           (Inr (),
            w\<lparr>trace := trace w @
                 [Search q (get_k (self_config self)),
                  ChatCall (self_llm self)
                    [SystemMessage (''Given the following snippets of related content, respond with the answer to the question. '' @
                                    nl @ content_block docs),
                     HumanMessage q],
                  Stderr (''AI prompt:'' @ nl @
                          ''Given the following snippets of related content, respond with the answer to the question. '' @
                          nl @ content_block docs),
                  Stderr (''User query:'' @ nl @ q),
                  Stderr (''Relevant files:'' @ nl @
                          str_list ext (map (\<lambda>s. os_path_abspath ext (source (metadata s))) docs))]\<rparr>)"
  using assms
  by (simp add: send_query_OpenAILLM_def embedding_search_def Let_def stderr_write_def emit_def)

lemma send_query_LLM_py_found:
  assumes "similarity_search ext (heap w ! self_vector_store self) q (get_k (self_config self)) = Inr docs"
  shows "send_query_LLM_py ext self q w =
           (Inr (),
            w\<lparr>trace := trace w @
                 [Search q (get_k (self_config self)),
                  RetrievalQACall (self_llm self) q docs,
                  Stdout (nl @ str_join nl
                            (map (\<lambda>s. page_facing_up @ '' '' @
                                       os_path_abspath ext (source (metadata s)) @ '':'') docs) @ nl)]\<rparr>)"
  using assms
  by (simp add: send_query_LLM_py_def Let_def py_print_def emit_def)

lemma send_query_failed:
  assumes "similarity_search ext (heap w ! self_vector_store self) q (get_k (self_config self)) = Inl e"
  shows "send_query_LocalLLM ext self q w =
           (Inl e, w\<lparr>trace := trace w @ [Search q (get_k (self_config self))]\<rparr>)"
    and "send_query_OpenAILLM ext self q w =
           (Inl e, w\<lparr>trace := trace w @ [Search q (get_k (self_config self))]\<rparr>)"
    and "send_query_LLM_py ext self q w =
           (Inl e, w\<lparr>trace := trace w @ [Search q (get_k (self_config self))]\<rparr>)"
  using assms
  by (simp_all add: send_query_LocalLLM_def send_query_OpenAILLM_def send_query_LLM_py_def
        embedding_search_def Let_def emit_def)

text \<open>
  C6, as amended: when the retrieval returns the chunks \<open>docs\<close>, the provenance each
  \<^verbatim>\<open>send_query\<close> reports (its last output) is the list of the absolute source paths of
  the retrieved chunks in retrieval order, one entry for each retrieved chunk. Nothing is
  deduplicated: the list is the deduplicated one exactly when no two retrieved chunks have
  the same path.
\<close>

theorem provenance_lists_every_retrieved_chunk:
  assumes "similarity_search ext (heap w ! self_vector_store self) q (get_k (self_config self)) = Inr docs"
      and "file_paths = map (\<lambda>s. os_path_abspath ext (source (metadata s))) docs"
  shows "last (trace (snd (send_query_LocalLLM ext self q w))) =
           Stderr (str_join nl (map (\<lambda>file_path. file_path @ '':'') file_paths)) \<and>
         last (trace (snd (send_query_OpenAILLM ext self q w))) =
           Stderr (''Relevant files:'' @ nl @ str_list ext file_paths) \<and>
         last (trace (snd (send_query_LLM_py ext self q w))) =
           Stdout (nl @ str_join nl
                     (map (\<lambda>file_path. page_facing_up @ '' '' @ file_path @ '':'') file_paths) @ nl) \<and>
         length file_paths = length docs \<and>
         (dedup_first file_paths = file_paths \<longleftrightarrow> distinct file_paths)"
  by (simp add: send_query_LocalLLM_found [OF assms(1)] send_query_OpenAILLM_found [OF assms(1)]
        send_query_LLM_py_found [OF assms(1)] assms(2) dedup_first_id_iff comp_def)

theorem provenance_lists_every_retrieved_chunk_witness:
  "similarity_search example_ext
     (heap (example_memory example_chunks) ! self_vector_store (example_self 4)) ''q''
     (get_k (self_config (example_self 4))) = Inr example_chunks \<and>
   last (trace (snd (send_query_LocalLLM example_ext (example_self 4) ''q''
                       (example_memory example_chunks)))) =
     Stderr (''/work/repo/a.py:'' @ nl @ ''/work/repo/b.py:'' @ nl @
             ''/work/repo/a.py:'' @ nl @ ''/work/repo/b.py:'')"
proof -
  have a: "similarity_search example_ext
     (heap (example_memory example_chunks) ! self_vector_store (example_self 4)) ''q''
     (get_k (self_config (example_self 4))) = Inr example_chunks"
    by (simp add: example_defs)
  from provenance_lists_every_retrieved_chunk [OF a refl]
  show ?thesis using a
    by (simp add: example_defs)
qed

text \<open>
  The claim as stated fails: the search returns two chunks of \<^verbatim>\<open>repo/a.py\<close> and two of
  \<^verbatim>\<open>repo/b.py\<close>, and the report lists four paths, not the two of the deduplicated list.
\<close>

theorem provenance_is_not_deduplicated:
  "similarity_search example_ext
     (heap (example_memory example_chunks) ! self_vector_store (example_self 4)) ''q''
     (get_k (self_config (example_self 4))) = Inr example_chunks \<and>
   dedup_first (map (\<lambda>s. os_path_abspath example_ext (source (metadata s))) example_chunks) =
     [''/work/repo/a.py'', ''/work/repo/b.py''] \<and>
   last (trace (snd (send_query_LocalLLM example_ext (example_self 4) ''q''
                       (example_memory example_chunks)))) =
     Stderr (''/work/repo/a.py:'' @ nl @ ''/work/repo/b.py:'' @ nl @
             ''/work/repo/a.py:'' @ nl @ ''/work/repo/b.py:'') \<and>
   last (trace (snd (send_query_LocalLLM example_ext (example_self 4) ''q''
                       (example_memory example_chunks)))) \<noteq>
     Stderr (str_join nl
               (map (\<lambda>file_path. file_path @ '':'')
                  (dedup_first
                     (map (\<lambda>s. os_path_abspath example_ext (source (metadata s))) example_chunks))))"
  by (simp add: send_query_LocalLLM_def embedding_search_def Let_def stderr_write_def emit_def
        example_defs nl_def)

text \<open>
  C7, as amended: no \<^verbatim>\<open>send_query\<close> checks \<open>k\<close>. For every \<open>k\<close>, also below 1, the first
  thing it does is the similarity search with that \<open>k\<close>; it fails exactly when the search
  raises, with the search's exception, and returns normally otherwise.
\<close>

theorem send_query_passes_k_unchecked:
  "fst (send_query_LocalLLM ext self q w) =
     (case similarity_search ext (heap w ! self_vector_store self) q (get_k (self_config self)) of
        Inl e \<Rightarrow> Inl e | Inr docs \<Rightarrow> Inr ()) \<and>
   take (Suc (length (trace w))) (trace (snd (send_query_LocalLLM ext self q w))) =
     trace w @ [Search q (get_k (self_config self))] \<and>
   fst (send_query_OpenAILLM ext self q w) =
     (case similarity_search ext (heap w ! self_vector_store self) q (get_k (self_config self)) of
        Inl e \<Rightarrow> Inl e | Inr docs \<Rightarrow> Inr ()) \<and>
   take (Suc (length (trace w))) (trace (snd (send_query_OpenAILLM ext self q w))) =
     trace w @ [Search q (get_k (self_config self))] \<and>
   fst (send_query_LLM_py ext self q w) =
     (case similarity_search ext (heap w ! self_vector_store self) q (get_k (self_config self)) of
        Inl e \<Rightarrow> Inl e | Inr docs \<Rightarrow> Inr ()) \<and>
   take (Suc (length (trace w))) (trace (snd (send_query_LLM_py ext self q w))) =
     trace w @ [Search q (get_k (self_config self))]"
proof (cases "similarity_search ext (heap w ! self_vector_store self) q (get_k (self_config self))")
  case (Inl e)
  then show ?thesis
    by (simp add: send_query_failed [OF Inl])
next
  case (Inr docs)
  then show ?thesis
    by (simp add: send_query_LocalLLM_found [OF Inr] send_query_OpenAILLM_found [OF Inr]
          send_query_LLM_py_found [OF Inr])
qed

theorem send_query_passes_k_unchecked_witness:
  "fst (send_query_LocalLLM example_ext (example_self 1) ''q'' (example_memory example_chunks)) = Inr () \<and>
   take 1 (trace (snd (send_query_LocalLLM example_ext (example_self 1) ''q''
                         (example_memory example_chunks)))) = [Search ''q'' 1]"
  using send_query_passes_k_unchecked
          [of example_ext "example_self 1" "''q''" "example_memory example_chunks"]
  by (simp add: example_defs)

text \<open>
  The claim as stated fails at \<open>k = 0\<close>: with a search that returns nothing for \<open>k = 0\<close>
  the call returns normally after sending the prompt to the model; with a search that
  rejects \<open>k < 1\<close> the call has already made the search with \<open>k = 0\<close> and fails with the
  search's exception, not with a parameter error of its own.
\<close>

theorem send_query_accepts_k_below_one:
  "get_k (self_config (example_self 0)) < 1 \<and>
   send_query_LocalLLM example_ext (example_self 0) ''q'' (example_memory example_chunks) =
     (Inr (),
      (example_memory example_chunks)
        \<lparr>trace :=
           [Search ''q'' 0,
            LLMChainRun (GPT4All ''model.bin'' 1024)
              (''Given the following content, your task is to answer the question.'' @ nl @
               ''Question: q'' @ nl),
            Stderr []]\<rparr>) \<and>
   send_query_LocalLLM example_ext_strict (example_self 0) ''q'' (example_memory example_chunks) =
     (Inl (SearchError ''AssertionError''),
      (example_memory example_chunks)\<lparr>trace := [Search ''q'' 0]\<rparr>)"
  by (simp add: send_query_LocalLLM_def embedding_search_def Let_def stderr_write_def emit_def
        content_block_def example_defs example_ext_strict_def)

text \<open>
  C8: when the retrieval returns no chunk, \<^verbatim>\<open>send_query\<close> of \<^verbatim>\<open>llm.py\<close> (both classes)
  returns normally: the context block is empty, the prompt is the fixed template around the
  empty block, the prompt is sent to the model, and the provenance written is that of the
  empty list.
\<close>

theorem send_query_without_chunks:
  assumes "similarity_search ext (heap w ! self_vector_store self) q (get_k (self_config self)) = Inr []"
  shows "send_query_LocalLLM ext self q w =
           (Inr (),
            w\<lparr>trace := trace w @
                 [Search q (get_k (self_config self)),
                  LLMChainRun (self_llm self)
                    (''Given the following content, your task is to answer the question.'' @ nl @
                     ''Question: '' @ q @ nl),
                  Stderr []]\<rparr>) \<and>
         send_query_OpenAILLM ext self q w =
           (Inr (),
            w\<lparr>trace := trace w @
                 [Search q (get_k (self_config self)),
                  ChatCall (self_llm self)
                    [SystemMessage (''Given the following snippets of related content, respond with the answer to the question. '' @ nl),
                     HumanMessage q],
                  Stderr (''AI prompt:'' @ nl @
                          ''Given the following snippets of related content, respond with the answer to the question. '' @ nl),
                  Stderr (''User query:'' @ nl @ q),
                  Stderr (''Relevant files:'' @ nl @ str_list ext [])]\<rparr>) \<and>
         content_block [] = []"
  by (simp add: send_query_LocalLLM_found [OF assms] send_query_OpenAILLM_found [OF assms]
        content_block_def)

theorem send_query_without_chunks_witness:
  "similarity_search example_ext (heap (example_memory []) ! self_vector_store (example_self 4)) ''q''
     (get_k (self_config (example_self 4))) = Inr [] \<and>
   send_query_LocalLLM example_ext (example_self 4) ''q'' (example_memory []) =
     (Inr (),
      (example_memory [])
        \<lparr>trace :=
           [Search ''q'' 4,
            LLMChainRun (GPT4All ''model.bin'' 1024)
              (''Given the following content, your task is to answer the question.'' @ nl @
               ''Question: q'' @ nl),
            Stderr []]\<rparr>)"
proof -
  have a: "similarity_search example_ext (heap (example_memory []) ! self_vector_store (example_self 4))
             ''q'' (get_k (self_config (example_self 4))) = Inr []"
    by (simp add: example_defs)
  from send_query_without_chunks [OF a]
  show ?thesis using a
    by (simp add: example_defs)
qed

end
